theory Spec2Isabelle
  imports Main "HOL-Library.AList"
begin

section \<open>AnimeVault: the persistent store, the Jikan API client and the detail page\<close>

text \<open>
  The development embeds three parts of the application: the \<open>Storage\<close> class (favorites
  and search history kept in \<open>localStorage\<close>), the \<open>JikanAPI\<close> class (rate limiter, response
  cache, \<open>request\<close> and the endpoint helpers built on it) and the recommendation fallback
  chain of \<open>AnimeDetailPage\<close>.

  Conventions of the embedding.
  \<^item> Every read of \<open>Date.now()\<close> or \<open>new Date()\<close> is a parameter of the function that reads it.
  \<^item> Strings are \<open>string\<close>; a \<open>char\<close> is a UTF-16 code unit below 256, that is a character
    of Latin-1. \<open>trim\<close> and \<open>toLowerCase\<close> are the functions of JavaScript on that range.
  \<^item> Values that come from JSON are of type \<open>json\<close>; numbers are integers.
  \<^item> A thrown exception is a value \<open>Error message\<close> on the left of a sum.
\<close>

subsection \<open>JSON values and strings\<close>

datatype json =
    JNull
  | JBool bool
  | JNum int
  | JStr string
  | JArr "json list"
  | JObj "(string \<times> json) list"

text \<open>JavaScript truthiness, as the tests \<open>if (data)\<close> and \<open>if (cachedData)\<close> use it.\<close>

fun truthy :: "json \<Rightarrow> bool" where
  "truthy JNull = False"
| "truthy (JBool b) = b"
| "truthy (JNum n) = (n \<noteq> 0)"
| "truthy (JStr s) = (s \<noteq> [])"
| "truthy (JArr xs) = True"
| "truthy (JObj kvs) = True"

text \<open>
  \<open>String.prototype.trim\<close> strips white space and line terminators from both ends. Below
  256 these are U+0009 to U+000D, the space and the no-break space U+00A0.
\<close>

definition is_space :: "char \<Rightarrow> bool" where
  "is_space c =
     (c \<in> set [CHR 0x09, CHR 0x0A, CHR 0x0B, CHR 0x0C, CHR 0x0D, CHR '' '', CHR 0xA0])"

definition trim :: "string \<Rightarrow> string" where
  "trim s = rev (dropWhile is_space (rev (dropWhile is_space s)))"

text \<open>
  \<open>String.prototype.toLowerCase\<close> below 256: the capitals are \<open>A\<close> to \<open>Z\<close> (65 to 90) and
  U+00C0 to U+00DE without the multiplication sign U+00D7; each has its small letter 32
  places up. Every other character is left as it is.
\<close>

definition lower_char :: "char \<Rightarrow> char" where
  "lower_char c =
     (let n = (of_char c :: nat) in
      if (65 \<le> n \<and> n \<le> 90) \<or> (192 \<le> n \<and> n \<le> 214) \<or> (216 \<le> n \<and> n \<le> 222)
      then char_of (n + 32)
      else c)"

definition toLowerCase :: "string \<Rightarrow> string" where
  "toLowerCase s = map lower_char s"

subsection \<open>Storage: favorites and search history\<close>

text \<open>
  An anime record as \<open>addFavorite\<close> reads it. The record is extensible: the catalog entity
  has more fields than the eleven that are projected into a favorite, and the projection
  drops them. A favorite is that projection plus \<open>added_date\<close>.
\<close>

record anime =
  mal_id :: int
  title :: string
  title_english :: json
  images :: json
  score :: json
  year :: json
  anime_type :: json
  status :: json
  episodes :: json
  synopsis :: json
  genres :: json

record favorite = anime +
  added_date :: string

record search_entry =
  entry_term :: string
  originalTerm :: string
  entry_timestamp :: string

text \<open>
  \<open>localStorage\<close>, restricted to the two entries the modelled operations use. \<open>None\<close> is an
  item that is absent or does not parse, for which \<open>get\<close> returns \<open>null\<close>. Serialisation
  (\<open>JSON.stringify\<close> on write, \<open>JSON.parse\<close> on read) is the identity on the stored lists.
\<close>

record storage =
  FAVORITES :: "favorite list option"
  SEARCH_HISTORY :: "search_entry list option"

text \<open>
  \<open>set(key, value)\<close>: \<open>localStorage.setItem\<close> either succeeds or throws (quota exceeded);
  the flag \<open>writable\<close> says which. A throw is caught, nothing is written and \<open>false\<close> is
  returned.
\<close>

definition set_FAVORITES :: "bool \<Rightarrow> favorite list \<Rightarrow> storage \<Rightarrow> bool \<times> storage" where
  "set_FAVORITES writable v st =
     (if writable then (True, st\<lparr>FAVORITES := Some v\<rparr>) else (False, st))"

definition set_SEARCH_HISTORY :: "bool \<Rightarrow> search_entry list \<Rightarrow> storage \<Rightarrow> bool \<times> storage" where
  "set_SEARCH_HISTORY writable v st =
     (if writable then (True, st\<lparr>SEARCH_HISTORY := Some v\<rparr>) else (False, st))"

definition getFavorites :: "storage \<Rightarrow> favorite list" where
  "getFavorites st = (case FAVORITES st of None \<Rightarrow> [] | Some favs \<Rightarrow> favs)"

definition favoriteData :: "string \<Rightarrow> 'a anime_scheme \<Rightarrow> favorite" where
  "favoriteData now a =
     \<lparr> mal_id = mal_id a, title = title a, title_english = title_english a,
       images = images a, score = score a, year = year a, anime_type = anime_type a,
       status = status a, episodes = episodes a, synopsis = synopsis a, genres = genres a,
       added_date = now \<rparr>"

definition addFavorite :: "bool \<Rightarrow> string \<Rightarrow> 'a anime_scheme \<Rightarrow> storage \<Rightarrow> bool \<times> storage" where
  "addFavorite writable now a st =
     (let favorites = getFavorites st in
      case find (\<lambda>fav. mal_id fav = mal_id a) favorites of
        Some exists \<Rightarrow> (False, st)
      | None \<Rightarrow>
          (let unshifted = favoriteData now a # favorites;
               popped = (if length unshifted > 100 then butlast unshifted else unshifted)
           in set_FAVORITES writable popped st))"

definition getSearchHistory :: "storage \<Rightarrow> search_entry list" where
  "getSearchHistory st = (case SEARCH_HISTORY st of None \<Rightarrow> [] | Some h \<Rightarrow> h)"

text \<open>
  \<open>addSearchTerm\<close> returns \<open>undefined\<close> (\<open>None\<close>) from its guard and the boolean of \<open>set\<close>
  otherwise.
\<close>

definition addSearchTerm :: "bool \<Rightarrow> string \<Rightarrow> string \<Rightarrow> storage \<Rightarrow> bool option \<times> storage" where
  "addSearchTerm writable now t st =
     (if t = [] \<or> length (trim t) < 2 then (None, st)
      else
        (let history = getSearchHistory st;
             cleanTerm = toLowerCase (trim t);
             filtered = filter (\<lambda>item. entry_term item \<noteq> cleanTerm) history;
             unshifted =
               \<lparr> entry_term = cleanTerm, originalTerm = trim t, entry_timestamp = now \<rparr> # filtered;
             limited = take 20 unshifted;
             (r, st') = set_SEARCH_HISTORY writable limited st
         in (Some r, st')))"

subsection \<open>JikanAPI: state, rate limiter and cache\<close>

definition baseURL :: string where
  "baseURL = ''https://api.jikan.moe/v4''"

definition rateLimitDelay :: int where
  "rateLimitDelay = 1000"

definition cacheTimeout :: int where
  "cacheTimeout = 300000"

record cache_entry =
  data :: json
  timestamp :: int

text \<open>
  The fields of the class, times in milliseconds. The \<open>Map\<close> is an association list in
  insertion order: \<open>Map.set\<close> on a present key replaces the value where it stands and on a
  new key appends (\<open>AList.update\<close>), \<open>Map.delete\<close> is \<open>AList.delete\<close>, and
  \<open>keys().next().value\<close> is the key of the first pair. \<open>sent\<close> is not a field of the class:
  it logs every call of \<open>fetch\<close>, as the time of the call and the URL, so that statements
  about network calls can be made.
\<close>

record JikanAPI =
  lastRequestTime :: int
  cache :: "(string \<times> cache_entry) list"
  sent :: "(int \<times> string) list"

definition constructor :: JikanAPI where
  "constructor = \<lparr> lastRequestTime = 0, cache = [], sent = [] \<rparr>"

text \<open>
  \<open>rateLimitedRequest\<close> runs in two pieces that the event loop does not interrupt. The
  first piece reads the clock and decides whether to wait (\<open>rateLimit_wait\<close>, which gives
  the timeout passed to \<open>setTimeout\<close>); the second piece, run at once or when the timer
  fires, stores \<open>Date.now()\<close> in \<open>lastRequestTime\<close> and calls \<open>fetch\<close> (\<open>dispatch\<close>).
\<close>

definition rateLimit_wait :: "int \<Rightarrow> JikanAPI \<Rightarrow> int option" where
  "rateLimit_wait now api =
     (let timeSinceLastRequest = now - lastRequestTime api in
      if timeSinceLastRequest < rateLimitDelay
      then Some (rateLimitDelay - timeSinceLastRequest)
      else None)"

definition dispatch :: "int \<Rightarrow> string \<Rightarrow> JikanAPI \<Rightarrow> JikanAPI" where
  "dispatch now url api = api\<lparr> lastRequestTime := now, sent := sent api @ [(now, url)] \<rparr>"

text \<open>
  The outcome of \<open>fetch\<close>: the promise rejects with an error (a transport failure), or it
  resolves with a response whose \<open>json()\<close> in turn yields the parsed body or rejects.
  \<open>response.ok\<close> is true for the statuses 200 to 299.
\<close>

datatype js_error = Error (message: string)

datatype response =
  Response (resp_status: nat) (resp_statusText: string) (resp_json: "js_error + json")

definition ok :: "response \<Rightarrow> bool" where
  "ok r = (200 \<le> resp_status r \<and> resp_status r \<le> 299)"

datatype fetch_outcome = Resolved response | Rejected js_error

text \<open>
  The clock of one call that runs without another call in between: \<open>t_call\<close> is
  \<open>Date.now()\<close> while the call runs up to its first \<open>await\<close>, \<open>late\<close> is by how much the
  timer fires after its timeout, and \<open>t_done\<close> is \<open>Date.now()\<close> once the body is parsed.
\<close>

record clock =
  t_call :: int
  late :: nat
  t_done :: int

definition rateLimitedRequest ::
  "string \<Rightarrow> clock \<Rightarrow> fetch_outcome \<Rightarrow> JikanAPI \<Rightarrow> fetch_outcome \<times> JikanAPI" where
  "rateLimitedRequest url clk net api =
     (case rateLimit_wait (t_call clk) api of
        Some ms \<Rightarrow> (net, dispatch (t_call clk + ms + int (late clk)) url api)
      | None \<Rightarrow> (net, dispatch (t_call clk) url api))"

text \<open>
  Calls that overlap. A call made at \<open>now\<close> runs its first piece; if it has to wait, its
  continuation is a timer with a due time. When the event loop gets control at \<open>now\<close>
  (\<open>Advance\<close>), the timers that are due run their second piece, in the order they were set.
\<close>

record event_loop =
  client :: JikanAPI
  timers :: "(int \<times> string) list"

datatype event = Call int string | Advance int

fun step :: "event \<Rightarrow> event_loop \<Rightarrow> event_loop" where
  "step (Call now url) L =
     (case rateLimit_wait now (client L) of
        Some ms \<Rightarrow> L\<lparr> timers := timers L @ [(now + ms, url)] \<rparr>
      | None \<Rightarrow> L\<lparr> client := dispatch now url (client L) \<rparr>)"
| "step (Advance now) L =
     L\<lparr> client := fold (\<lambda>timer. dispatch now (snd timer))
                     (filter (\<lambda>timer. fst timer \<le> now) (timers L)) (client L),
        timers := filter (\<lambda>timer. \<not> fst timer \<le> now) (timers L) \<rparr>"

definition run :: "event list \<Rightarrow> event_loop \<Rightarrow> event_loop" where
  "run events L = fold step events L"

text \<open>\<open>getCachedData\<close> returns \<open>cached.data\<close> on a hit and \<open>null\<close> otherwise.\<close>

definition getCachedData :: "string \<Rightarrow> int \<Rightarrow> JikanAPI \<Rightarrow> json \<times> JikanAPI" where
  "getCachedData key now api =
     (case map_of (cache api) key of
        Some cached \<Rightarrow>
          if now - timestamp cached < cacheTimeout then (data cached, api)
          else (JNull, api\<lparr> cache := AList.delete key (cache api) \<rparr>)
      | None \<Rightarrow> (JNull, api\<lparr> cache := AList.delete key (cache api) \<rparr>))"

definition setCachedData :: "string \<Rightarrow> json \<Rightarrow> int \<Rightarrow> JikanAPI \<Rightarrow> JikanAPI" where
  "setCachedData key d now api =
     (let stored = AList.update key \<lparr> data = d, timestamp = now \<rparr> (cache api) in
      if length stored > 100
      then (case stored of
              [] \<Rightarrow> api\<lparr> cache := stored \<rparr>
            | (firstKey, _) # _ \<Rightarrow> api\<lparr> cache := AList.delete firstKey stored \<rparr>)
      else api\<lparr> cache := stored \<rparr>)"

subsection \<open>JikanAPI: request and the endpoints built on it\<close>

text \<open>The decimal digits of a number, as a template string prints it.\<close>

fun show_nat :: "nat \<Rightarrow> string" where
  "show_nat n =
     (if n < 10 then [''0123456789'' ! n]
      else show_nat (n div 10) @ [''0123456789'' ! (n mod 10)])"

declare show_nat.simps [simp del]

text \<open>
  \<open>encodeURIComponent\<close> keeps the unreserved characters and writes every other character
  as the bytes of its UTF-8 encoding, each byte as \<open>%\<close> and two hexadecimal digits. A
  character below 128 is one byte, one from 128 to 255 is two.
\<close>

definition unreserved :: "char \<Rightarrow> bool" where
  "unreserved c =
     (c \<in> set (''ABCDEFGHIJKLMNOPQRSTUVWXYZabcdefghijklmnopqrstuvwxyz0123456789-_.!~*()''
               @ [CHR 0x27]))"

definition utf8_bytes :: "char \<Rightarrow> nat list" where
  "utf8_bytes c =
     (let n = (of_char c :: nat) in
      if n < 128 then [n] else [192 + n div 64, 128 + n mod 64])"

definition percent_byte :: "nat \<Rightarrow> string" where
  "percent_byte b =
     [CHR ''%'', ''0123456789ABCDEF'' ! (b div 16), ''0123456789ABCDEF'' ! (b mod 16)]"

definition percent_encode :: "char \<Rightarrow> string" where
  "percent_encode c = concat (map percent_byte (utf8_bytes c))"

definition encodeURIComponent :: "string \<Rightarrow> string" where
  "encodeURIComponent s = concat (map (\<lambda>c. if unreserved c then [c] else percent_encode c) s)"

text \<open>
  The value \<open>request\<close> resolves to: \<open>{success: true, data}\<close> or
  \<open>{success: false, error, endpoint}\<close>; the guards of the endpoint helpers return a
  failure without \<open>endpoint\<close>.
\<close>

datatype api_result =
    Success json
  | Failure (result_error: string) (result_endpoint: "string option")

text \<open>
  The body of the \<open>try\<close> block: \<open>Inl\<close> is an exception on its way to the \<open>catch\<close>. The fetch
  outcome \<open>net\<close> is what the network answers if it is asked.
\<close>

definition request_try ::
  "string \<Rightarrow> bool \<Rightarrow> clock \<Rightarrow> fetch_outcome \<Rightarrow> JikanAPI \<Rightarrow> (js_error + api_result) \<times> JikanAPI"
  where
  "request_try endpoint useCache clk net api0 =
     (let url = baseURL @ endpoint;
          cacheKey = endpoint;
          (cachedData, api1) =
             (if useCache then getCachedData cacheKey (t_call clk) api0 else (JNull, api0))
      in if useCache \<and> truthy cachedData then (Inr (Success cachedData), api1)
         else
           (let (outcome, api2) = rateLimitedRequest url clk net api1 in
            case outcome of
              Rejected e \<Rightarrow> (Inl e, api2)
            | Resolved response \<Rightarrow>
                if \<not> ok response
                then (Inl (Error (''HTTP '' @ show_nat (resp_status response) @ '': ''
                                   @ resp_statusText response)), api2)
                else (case resp_json response of
                        Inl e \<Rightarrow> (Inl e, api2)
                      | Inr d \<Rightarrow>
                          (Inr (Success d),
                           if useCache \<and> truthy d
                           then setCachedData cacheKey d (t_done clk) api2
                           else api2))))"

definition request ::
  "string \<Rightarrow> bool \<Rightarrow> clock \<Rightarrow> fetch_outcome \<Rightarrow> JikanAPI \<Rightarrow> api_result \<times> JikanAPI" where
  "request endpoint useCache clk net api0 =
     (case request_try endpoint useCache clk net api0 of
        (Inr result, api') \<Rightarrow> (result, api')
      | (Inl e, api') \<Rightarrow> (Failure (message e) (Some endpoint), api'))"

definition searchAnime ::
  "string \<Rightarrow> nat \<Rightarrow> nat \<Rightarrow> clock \<Rightarrow> fetch_outcome \<Rightarrow> JikanAPI \<Rightarrow> api_result \<times> JikanAPI" where
  "searchAnime query page limit clk net api0 =
     (if query = [] \<or> length (trim query) = 0
      then (Failure ''Search query is required'' None, api0)
      else
        (let endpoint = ''/anime?q='' @ encodeURIComponent (trim query) @ ''&page=''
               @ show_nat page @ ''&limit='' @ show_nat limit @ ''&order_by=score&sort=desc''
         in request endpoint False clk net api0))"

definition getRandomAnime :: "clock \<Rightarrow> fetch_outcome \<Rightarrow> JikanAPI \<Rightarrow> api_result \<times> JikanAPI" where
  "getRandomAnime clk net api0 = request ''/random/anime'' False clk net api0"

text \<open>
  The representation invariant of the cache: the keys of a \<open>Map\<close> are distinct, and the
  class keeps at most 100 entries.
\<close>

definition cache_ok :: "JikanAPI \<Rightarrow> bool" where
  "cache_ok a = (distinct (map fst (cache a)) \<and> length (cache a) \<le> 100)"

subsection \<open>AnimeDetailPage: recommendations and their fallbacks\<close>

text \<open>
  What the page reads of a result of the API client. A failure is \<open>{success: false}\<close>. In a
  success, \<open>result.data\<close> is \<open>null\<close> (\<open>NoBody\<close>; reading \<open>result.data.data\<close> then throws) or
  an object whose \<open>data\<close> field is missing (\<open>Body None\<close>) or an array of items. The API
  client is a parameter of the page functions: they take the results it resolves to.
\<close>

datatype 'a body = NoBody | Body "'a list option"

datatype 'a page_result = Succeeded "'a body" | Failed string

record summary =
  card_mal_id :: int
  card_title :: string

record recommendation =
  entry :: "summary option"

record genre =
  genre_mal_id :: int
  genre_name :: string

record detail =
  detail_genres :: "genre list option"

text \<open>\<open>animeId\<close> is the \<open>id\<close> parameter of the URL, a string; \<open>animeData\<close> is \<open>null\<close> until loaded.\<close>

record page =
  animeId :: string
  animeData :: "detail option"

text \<open>
  The children of a container element: a card made by \<open>createAnimeCard\<close> in its column, or a
  message line. Every page function that renders replaces the content of the container,
  so it returns the new content.
\<close>

datatype element = Card summary | Message string

definition fallbackAnime :: "summary list" where
  "fallbackAnime =
     [\<lparr>card_mal_id = 16498, card_title = ''Attack on Titan''\<rparr>,
      \<lparr>card_mal_id = 11757, card_title = ''Sword Art Online''\<rparr>,
      \<lparr>card_mal_id = 20, card_title = ''Naruto''\<rparr>,
      \<lparr>card_mal_id = 1535, card_title = ''Death Note''\<rparr>,
      \<lparr>card_mal_id = 5114, card_title = ''Fullmetal Alchemist: Brotherhood''\<rparr>,
      \<lparr>card_mal_id = 31964, card_title = ''Boku no Hero Academia''\<rparr>]"

definition showFallbackRecommendations :: "element list \<Rightarrow> element list" where
  "showFallbackRecommendations container =
     map Card (take 6 fallbackAnime)
     @ [Message ''Showing popular anime (recommendations temporarily unavailable)'']"

text \<open>
  \<open>anime.mal_id !== this.animeId\<close> compares a number of the API with the string of the URL:
  strict inequality of values of different types is true.
\<close>

definition strict_neq :: "int \<Rightarrow> string \<Rightarrow> bool" where
  "strict_neq n s = True"

text \<open>
  The \<open>try\<close> block of \<open>loadSimilarAnimeByGenre\<close>: \<open>Inr (Some content)\<close> when it rendered and
  returned, \<open>Inr None\<close> when it fell through to the fallback call at its end, \<open>Inl\<close> when it
  threw. \<open>byGenre\<close> is \<open>jikanAPI.getAnimeByGenre\<close> with page 1 and limit 6.
\<close>

definition loadSimilarAnimeByGenre_try ::
  "page \<Rightarrow> (int \<Rightarrow> summary page_result) \<Rightarrow> js_error + element list option" where
  "loadSimilarAnimeByGenre_try pg byGenre =
     (case animeData pg of
        None \<Rightarrow> Inl (Error ''Cannot read properties of null (reading genres)'')
      | Some anime \<Rightarrow>
          (case detail_genres anime of
             Some (g # gs) \<Rightarrow>
               (case byGenre (genre_mal_id g) of
                  Failed msg \<Rightarrow> Inr None
                | Succeeded NoBody \<Rightarrow>
                    Inl (Error ''Cannot read properties of null (reading data)'')
                | Succeeded (Body None) \<Rightarrow> Inr None
                | Succeeded (Body (Some items)) \<Rightarrow>
                    if length items > 0
                    then (let fragment =
                                map Card (filter (\<lambda>a. strict_neq (card_mal_id a) (animeId pg))
                                            (take 6 items))
                          in if length fragment > 0
                             then Inr (Some (fragment
                                    @ [Message (''Similar '' @ genre_name g @ '' anime'')]))
                             else Inr None)
                    else Inr None)
           | _ \<Rightarrow> Inr None))"

definition loadSimilarAnimeByGenre ::
  "page \<Rightarrow> (int \<Rightarrow> summary page_result) \<Rightarrow> element list \<Rightarrow> element list" where
  "loadSimilarAnimeByGenre pg byGenre container =
     (case loadSimilarAnimeByGenre_try pg byGenre of
        Inr (Some content) \<Rightarrow> content
      | Inr None \<Rightarrow> showFallbackRecommendations container
      | Inl e \<Rightarrow> showFallbackRecommendations container)"

text \<open>
  The \<open>try\<close> block of \<open>loadRecommendations\<close>, up to the call of the fallback in its \<open>else\<close>
  branch: \<open>Inr (Some content)\<close> when the recommendations were rendered, \<open>Inr None\<close> for the
  \<open>else\<close> branch. \<open>recs\<close> is what \<open>jikanAPI.getAnimeRecommendations(this.animeId)\<close> resolves to.
\<close>

definition loadRecommendations_try ::
  "recommendation page_result \<Rightarrow> js_error + element list option" where
  "loadRecommendations_try recs =
     (case recs of
        Failed msg \<Rightarrow> Inr None
      | Succeeded NoBody \<Rightarrow> Inl (Error ''Cannot read properties of null (reading data)'')
      | Succeeded (Body None) \<Rightarrow> Inr None
      | Succeeded (Body (Some items)) \<Rightarrow>
          if length items > 0
          then Inr (Some (map Card (List.map_filter entry (take 6 items))))
          else Inr None)"

text \<open>
  \<open>recommendationsContainer\<close> is \<open>None\<close> when the document has no such element; the function
  then returns at once.
\<close>

definition loadRecommendations ::
  "page \<Rightarrow> recommendation page_result \<Rightarrow> (int \<Rightarrow> summary page_result)
     \<Rightarrow> element list option \<Rightarrow> element list option" where
  "loadRecommendations pg recs byGenre recommendationsContainer =
     (case recommendationsContainer of
        None \<Rightarrow> None
      | Some container \<Rightarrow>
          (case loadRecommendations_try recs of
             Inr (Some content) \<Rightarrow> Some content
           | Inr None \<Rightarrow> Some (loadSimilarAnimeByGenre pg byGenre container)
           | Inl e \<Rightarrow> Some (loadSimilarAnimeByGenre pg byGenre container)))"

text \<open>
  The two conditions of the fallback chain, read off the guards above: the recommendation
  endpoint failed or returned no entries, and the genre search gave nothing to render.
\<close>

fun no_recommendations :: "recommendation page_result \<Rightarrow> bool" where
  "no_recommendations (Failed msg) = True"
| "no_recommendations (Succeeded NoBody) = True"
| "no_recommendations (Succeeded (Body None)) = True"
| "no_recommendations (Succeeded (Body (Some items))) = (items = [])"

fun no_similar :: "page \<Rightarrow> (int \<Rightarrow> summary page_result) \<Rightarrow> bool" where
  "no_similar pg byGenre =
     (case animeData pg of
        None \<Rightarrow> True
      | Some anime \<Rightarrow>
          (case detail_genres anime of
             Some (g # gs) \<Rightarrow>
               (case byGenre (genre_mal_id g) of
                  Failed msg \<Rightarrow> True
                | Succeeded NoBody \<Rightarrow> True
                | Succeeded (Body None) \<Rightarrow> True
                | Succeeded (Body (Some items)) \<Rightarrow> items = [])
           | _ \<Rightarrow> True))"

subsection \<open>Concrete stores used in the worked examples\<close>

definition naruto :: anime where
  "naruto = \<lparr> mal_id = 20, title = ''Naruto'', title_english = JStr ''Naruto'',
     images = JNull, score = JNum 8, year = JNum 2002, anime_type = JStr ''TV'',
     status = JStr ''Finished Airing'', episodes = JNum 220, synopsis = JNull,
     genres = JArr [] \<rparr>"

definition store0 :: storage where
  "store0 = \<lparr> FAVORITES = Some [favoriteData ''2024-01-01T00:00:00.000Z'' naruto],
     SEARCH_HISTORY = None \<rparr>"



definition history0 :: storage where
  "history0 = \<lparr> FAVORITES = None, SEARCH_HISTORY = Some
     [\<lparr>entry_term = ''bleach'', originalTerm = ''Bleach'',
        entry_timestamp = ''2024-01-01T00:00:00.000Z''\<rparr>,
      \<lparr>entry_term = ''naruto'', originalTerm = ''Naruto'',
        entry_timestamp = ''2024-01-01T00:00:01.000Z''\<rparr>] \<rparr>"

text \<open>
  Terms with characters outside ASCII: a no-break space and a capital E with acute before
  \<open>clair\<close>; a letter between two no-break spaces; two no-break spaces.
\<close>

definition eclair_term :: string where
  "eclair_term = [CHR 0xA0, CHR 0xC9] @ ''clair ''"

definition nbsp_a_term :: string where
  "nbsp_a_term = [CHR 0xA0, CHR ''a'', CHR 0xA0]"

definition nbsp_term :: string where
  "nbsp_term = [CHR 0xA0, CHR 0xA0]"

subsection \<open>Concrete clients, clocks and responses used in the worked examples\<close>

text \<open>
  The detail page asks for the full record and, when it has arrived 200 ms later, asks for
  the characters and the recommendations in the same turn of the event loop.
\<close>

definition page_fanout :: "event list" where
  "page_fanout =
     [Call 5000 ''https://api.jikan.moe/v4/anime/20/full'',
      Call 5200 ''https://api.jikan.moe/v4/anime/20/characters'',
      Call 5200 ''https://api.jikan.moe/v4/anime/20/recommendations'',
      Advance 6000]"

definition fresh_loop :: event_loop where
  "fresh_loop = \<lparr> client = constructor, timers = [] \<rparr>"

text \<open>A client whose cache is full: one hundred entries, \<open>/anime/0\<close> the oldest.\<close>

definition full_api :: JikanAPI where
  "full_api = \<lparr> lastRequestTime = 0,
     cache = map (\<lambda>n. (''/anime/'' @ show_nat n,
                        \<lparr>data = JNum (int n), timestamp = int n\<rparr>)) [0..<100],
     sent = [] \<rparr>"

definition clkA :: clock where
  "clkA = \<lparr> t_call = 5000, late = 0, t_done = 5300 \<rparr>"

definition clkB :: clock where
  "clkB = \<lparr> t_call = 65000, late = 0, t_done = 65300 \<rparr>"

definition clkC :: clock where
  "clkC = \<lparr> t_call = 305300, late = 0, t_done = 305600 \<rparr>"

definition genres_payload :: json where
  "genres_payload = JObj [(''data'', JArr [JObj [(''mal_id'', JNum 1), (''name'', JStr ''Action'')]])]"

definition genres_response :: response where
  "genres_response = Response 200 ''OK'' (Inr genres_payload)"

text \<open>The client after \<open>/genres/anime\<close> was fetched and cached at 5300.\<close>

definition cached_api :: JikanAPI where
  "cached_api = \<lparr> lastRequestTime = 5000,
     cache = [(''/genres/anime'', \<lparr>data = genres_payload, timestamp = 5300\<rparr>)],
     sent = [(5000, ''https://api.jikan.moe/v4/genres/anime'')] \<rparr>"

text \<open>A 200 response whose body is the JSON text \<open>null\<close>.\<close>

definition null_response :: fetch_outcome where
  "null_response = Resolved (Response 200 ''OK'' (Inr JNull))"

text \<open>A 200 response whose body is not JSON, an HTML page for instance.\<close>

definition html_response :: fetch_outcome where
  "html_response =
     Resolved (Response 200 ''OK'' (Inl (Error ''Unexpected token < in JSON at position 0'')))"

definition not_found_response :: fetch_outcome where
  "not_found_response =
     Resolved (Response 404 ''Not Found'' (Inr (JObj [(''status'', JNum 404)])))"

definition action :: genre where
  "action = \<lparr>genre_mal_id = 1, genre_name = ''Action''\<rparr>"

definition naruto_detail :: detail where
  "naruto_detail = \<lparr> detail_genres = Some [action] \<rparr>"

definition naruto_page :: page where
  "naruto_page = \<lparr> animeId = ''20'', animeData = Some naruto_detail \<rparr>"

definition bleach_card :: summary where
  "bleach_card = \<lparr>card_mal_id = 269, card_title = ''Bleach''\<rparr>"

definition one_piece_card :: summary where
  "one_piece_card = \<lparr>card_mal_id = 21, card_title = ''One Piece''\<rparr>"

text \<open>A genre search that answers for Action and fails for every other genre.\<close>

definition action_search :: "int \<Rightarrow> summary page_result" where
  "action_search genreId =
     (if genreId = 1 then Succeeded (Body (Some [bleach_card, one_piece_card]))
      else Failed ''HTTP 404: Not Found'')"

definition failing_recs :: "recommendation page_result" where
  "failing_recs = Failed ''HTTP 500: Internal Server Error''"

definition failing_genre :: "int \<Rightarrow> summary page_result" where
  "failing_genre genreId = Failed ''HTTP 500: Internal Server Error''"

section \<open>Properties of the store\<close>

lemma find_exists: "(\<exists>x\<in>set xs. P x) \<Longrightarrow> \<exists>y. find P xs = Some y"
  by (induction xs) auto

text \<open>
  Claim C4. For every stored favorites list and every anime record whose \<open>mal_id\<close> already
  appears in that list, \<open>addFavorite\<close> returns \<open>false\<close> and leaves the store unchanged,
  whether or not the store could have been written.
\<close>

theorem addFavorite_duplicate_noop:
  assumes "\<exists>fav \<in> set (getFavorites st). mal_id fav = mal_id a"
  shows "addFavorite writable now a st = (False, st)"
proof -
  from assms obtain y where "find (\<lambda>fav. mal_id fav = mal_id a) (getFavorites st) = Some y"
    using find_exists[of "getFavorites st" "\<lambda>fav. mal_id fav = mal_id a"] by blast
  then show ?thesis by (simp add: addFavorite_def)
qed

theorem addFavorite_duplicate_noop_witness:
  "(\<exists>fav \<in> set (getFavorites store0). mal_id fav = mal_id naruto) \<and>
   addFavorite True ''2024-01-02T00:00:00.000Z'' naruto store0 = (False, store0)"
proof -
  have h: "\<exists>fav \<in> set (getFavorites store0). mal_id fav = mal_id naruto"
    by (simp add: getFavorites_def store0_def favoriteData_def)
  show ?thesis using h addFavorite_duplicate_noop[OF h] by simp
qed



lemma trim_naruto: "trim ''naruto'' = ''naruto''"
  by (simp add: trim_def is_space_def)

lemma lower_naruto: "toLowerCase ''naruto'' = ''naruto''"
  by code_simp

lemma addSearchTerm_written:
  assumes "2 \<le> length (trim t)"
  shows "addSearchTerm True now t st =
    (Some True, st\<lparr>SEARCH_HISTORY := Some (take 20
       (\<lparr>entry_term = toLowerCase (trim t), originalTerm = trim t, entry_timestamp = now\<rparr>
        # filter (\<lambda>item. entry_term item \<noteq> toLowerCase (trim t)) (getSearchHistory st)))\<rparr>)"
proof -
  from assms have "t \<noteq> []" by (auto simp: trim_def)
  with assms show ?thesis
    by (simp add: addSearchTerm_def set_SEARCH_HISTORY_def Let_def)
qed

lemma filter_take_head:
  assumes "P x" and "\<forall>y \<in> set ys. \<not> P y"
  shows "filter P (take (Suc n) (x # ys)) = [x]"
proof -
  have "filter P (take n ys) = []"
    using assms(2) by (auto simp: filter_empty_conv dest: in_set_takeD)
  with assms(1) show ?thesis by simp
qed

text \<open>
  Claim C6. For a term whose trimmed length is at least 2 and a store that accepts the
  write, \<open>addSearchTerm\<close> returns \<open>true\<close> and the stored history becomes: the new entry
  (normalised term = trimmed and lower-cased input, original term = trimmed input), followed
  by the old entries with a different normalised term in their old order, cut to 20
  entries. So the new entry is first, it is the only entry with its normalised term, and
  the history has at most 20 entries. In particular, after \<open>Naruto\<close> and then \<open>naruto\<close> the
  only entry for \<open>naruto\<close> is the later one, with the later casing.
\<close>

theorem addSearchTerm_dedup:
  assumes "2 \<le> length (trim t)"
    and "addSearchTerm True now t st = (r, st')"
  shows "r = Some True \<and>
    getSearchHistory st' =
      take 20 (\<lparr>entry_term = toLowerCase (trim t), originalTerm = trim t,
                 entry_timestamp = now\<rparr>
               # filter (\<lambda>item. entry_term item \<noteq> toLowerCase (trim t))
                   (getSearchHistory st)) \<and>
    hd (getSearchHistory st') =
      \<lparr>entry_term = toLowerCase (trim t), originalTerm = trim t, entry_timestamp = now\<rparr> \<and>
    filter (\<lambda>item. entry_term item = toLowerCase (trim t)) (getSearchHistory st') =
      [\<lparr>entry_term = toLowerCase (trim t), originalTerm = trim t,
         entry_timestamp = now\<rparr>] \<and>
    length (getSearchHistory st') \<le> 20 \<and>
    filter (\<lambda>item. entry_term item = ''naruto'')
      (getSearchHistory (snd (addSearchTerm True now ''naruto''
         (snd (addSearchTerm True earlier ''Naruto'' st))))) =
      [\<lparr>entry_term = ''naruto'', originalTerm = ''naruto'', entry_timestamp = now\<rparr>]"
proof -
  let ?new = "\<lparr>entry_term = toLowerCase (trim t), originalTerm = trim t,
    entry_timestamp = now\<rparr>"
  let ?rest = "filter (\<lambda>item. entry_term item \<noteq> toLowerCase (trim t)) (getSearchHistory st)"
  have w: "r = Some True" "st' = st\<lparr>SEARCH_HISTORY := Some (take 20 (?new # ?rest))\<rparr>"
    using addSearchTerm_written[OF assms(1), of now st] assms(2) by simp_all
  have g: "getSearchHistory st' = take 20 (?new # ?rest)"
    using w(2) by (simp add: getSearchHistory_def)
  have one: "filter (\<lambda>item. entry_term item = toLowerCase (trim t)) (take 20 (?new # ?rest))
      = [?new]"
    using filter_take_head[of "\<lambda>item. entry_term item = toLowerCase (trim t)" ?new ?rest 19]
    by simp
  have ex: "filter (\<lambda>item. entry_term item = ''naruto'')
      (getSearchHistory (snd (addSearchTerm True now ''naruto''
         (snd (addSearchTerm True earlier ''Naruto'' st))))) =
      [\<lparr>entry_term = ''naruto'', originalTerm = ''naruto'', entry_timestamp = now\<rparr>]"
  proof -
    let ?s1 = "snd (addSearchTerm True earlier ''Naruto'' st)"
    let ?e = "\<lparr>entry_term = ''naruto'', originalTerm = ''naruto'', entry_timestamp = now\<rparr>"
    let ?r2 = "filter (\<lambda>item. entry_term item \<noteq> ''naruto'') (getSearchHistory ?s1)"
    have l2: "2 \<le> length (trim ''naruto'')" by (simp add: trim_naruto)
    have "getSearchHistory (snd (addSearchTerm True now ''naruto'' ?s1)) = take 20 (?e # ?r2)"
      using addSearchTerm_written[OF l2, of now ?s1]
      by (simp add: trim_naruto lower_naruto getSearchHistory_def)
    moreover have "filter (\<lambda>item. entry_term item = ''naruto'') (take 20 (?e # ?r2)) = [?e]"
      using filter_take_head[of "\<lambda>item. entry_term item = ''naruto''" ?e ?r2 19] by simp
    ultimately show ?thesis by simp
  qed
  show ?thesis using w(1) g one ex by simp
qed

text \<open>
  Two runs on a history that holds \<open>bleach\<close> and \<open>naruto\<close>: a term in mixed case between
  spaces replaces the entry for \<open>naruto\<close>; a term that starts with a no-break space and a
  capital E with acute is trimmed and stored with the small letter.
\<close>

theorem addSearchTerm_dedup_witness:
  "2 \<le> length (trim ''  naRUTo '') \<and>
   addSearchTerm True ''2024-01-03T00:00:00.000Z'' ''  naRUTo '' history0 =
     (Some True, history0\<lparr>SEARCH_HISTORY := Some
       [\<lparr>entry_term = ''naruto'', originalTerm = ''naRUTo'',
          entry_timestamp = ''2024-01-03T00:00:00.000Z''\<rparr>,
        \<lparr>entry_term = ''bleach'', originalTerm = ''Bleach'',
          entry_timestamp = ''2024-01-01T00:00:00.000Z''\<rparr>]\<rparr>) \<and>
   length (getSearchHistory (history0\<lparr>SEARCH_HISTORY := Some
       [\<lparr>entry_term = ''naruto'', originalTerm = ''naRUTo'',
          entry_timestamp = ''2024-01-03T00:00:00.000Z''\<rparr>,
        \<lparr>entry_term = ''bleach'', originalTerm = ''Bleach'',
          entry_timestamp = ''2024-01-01T00:00:00.000Z''\<rparr>]\<rparr>)) \<le> 20 \<and>
   2 \<le> length (trim eclair_term) \<and>
   addSearchTerm True ''2024-01-03T00:00:00.000Z'' eclair_term history0 =
     (Some True, history0\<lparr>SEARCH_HISTORY := Some
       [\<lparr>entry_term = CHR 0xE9 # ''clair'', originalTerm = CHR 0xC9 # ''clair'',
          entry_timestamp = ''2024-01-03T00:00:00.000Z''\<rparr>,
        \<lparr>entry_term = ''bleach'', originalTerm = ''Bleach'',
          entry_timestamp = ''2024-01-01T00:00:00.000Z''\<rparr>,
        \<lparr>entry_term = ''naruto'', originalTerm = ''Naruto'',
          entry_timestamp = ''2024-01-01T00:00:01.000Z''\<rparr>]\<rparr>) \<and>
   hd (getSearchHistory (history0\<lparr>SEARCH_HISTORY := Some
       [\<lparr>entry_term = CHR 0xE9 # ''clair'', originalTerm = CHR 0xC9 # ''clair'',
          entry_timestamp = ''2024-01-03T00:00:00.000Z''\<rparr>,
        \<lparr>entry_term = ''bleach'', originalTerm = ''Bleach'',
          entry_timestamp = ''2024-01-01T00:00:00.000Z''\<rparr>,
        \<lparr>entry_term = ''naruto'', originalTerm = ''Naruto'',
          entry_timestamp = ''2024-01-01T00:00:01.000Z''\<rparr>]\<rparr>)) =
     \<lparr>entry_term = toLowerCase (trim eclair_term), originalTerm = trim eclair_term,
        entry_timestamp = ''2024-01-03T00:00:00.000Z''\<rparr>"
proof -
  have t: "trim ''  naRUTo '' = ''naRUTo''" by (simp add: trim_def is_space_def)
  have l: "toLowerCase ''naRUTo'' = ''naruto''" by code_simp
  have h: "2 \<le> length (trim ''  naRUTo '')" by (simp add: t)
  have run: "addSearchTerm True ''2024-01-03T00:00:00.000Z'' ''  naRUTo '' history0 =
     (Some True, history0\<lparr>SEARCH_HISTORY := Some
       [\<lparr>entry_term = ''naruto'', originalTerm = ''naRUTo'',
          entry_timestamp = ''2024-01-03T00:00:00.000Z''\<rparr>,
        \<lparr>entry_term = ''bleach'', originalTerm = ''Bleach'',
          entry_timestamp = ''2024-01-01T00:00:00.000Z''\<rparr>]\<rparr>)"
    by (simp add: addSearchTerm_def t l getSearchHistory_def history0_def
        set_SEARCH_HISTORY_def Let_def)
  have t2: "trim eclair_term = CHR 0xC9 # ''clair''" by code_simp
  have l2: "toLowerCase (CHR 0xC9 # ''clair'') = CHR 0xE9 # ''clair''" by code_simp
  have h2: "2 \<le> length (trim eclair_term)" by (simp add: t2)
  have run2: "addSearchTerm True ''2024-01-03T00:00:00.000Z'' eclair_term history0 =
     (Some True, history0\<lparr>SEARCH_HISTORY := Some
       [\<lparr>entry_term = CHR 0xE9 # ''clair'', originalTerm = CHR 0xC9 # ''clair'',
          entry_timestamp = ''2024-01-03T00:00:00.000Z''\<rparr>,
        \<lparr>entry_term = ''bleach'', originalTerm = ''Bleach'',
          entry_timestamp = ''2024-01-01T00:00:00.000Z''\<rparr>,
        \<lparr>entry_term = ''naruto'', originalTerm = ''Naruto'',
          entry_timestamp = ''2024-01-01T00:00:01.000Z''\<rparr>]\<rparr>)"
    using addSearchTerm_written[OF h2, of "''2024-01-03T00:00:00.000Z''" history0]
    by (simp add: t2 l2 getSearchHistory_def history0_def)
  show ?thesis
    using h run addSearchTerm_dedup[OF h run] h2 run2 addSearchTerm_dedup[OF h2 run2]
    by blast
qed

text \<open>
  Claim C10. For every store, \<open>addSearchTerm\<close> with a term whose trimmed length is below 2
  (the empty string and strings of white space included) returns from its guard: nothing
  is written and the store is unchanged.
\<close>

theorem addSearchTerm_short_noop:
  assumes "length (trim t) < 2"
  shows "addSearchTerm writable now t st = (None, st)"
  using assms by (simp add: addSearchTerm_def)

theorem addSearchTerm_short_noop_witness:
  "length (trim ''  a '') < 2 \<and> length (trim []) < 2 \<and> length (trim ''   '') < 2 \<and>
   length (trim nbsp_a_term) < 2 \<and> length (trim nbsp_term) < 2 \<and>
   addSearchTerm True ''2024-01-02T00:00:00.000Z'' ''  a '' store0 = (None, store0) \<and>
   addSearchTerm True ''2024-01-02T00:00:00.000Z'' [] store0 = (None, store0) \<and>
   addSearchTerm True ''2024-01-02T00:00:00.000Z'' ''   '' store0 = (None, store0) \<and>
   addSearchTerm True ''2024-01-02T00:00:00.000Z'' nbsp_a_term store0 = (None, store0) \<and>
   addSearchTerm True ''2024-01-02T00:00:00.000Z'' nbsp_term store0 = (None, store0)"
proof -
  have h1: "length (trim ''  a '') < 2" by (simp add: trim_def is_space_def)
  have h2: "length (trim []) < 2" by (simp add: trim_def is_space_def)
  have h3: "length (trim ''   '') < 2" by (simp add: trim_def is_space_def)
  have h4: "length (trim nbsp_a_term) < 2"
    by (simp add: trim_def is_space_def nbsp_a_term_def)
  have h5: "length (trim nbsp_term) < 2"
    by (simp add: trim_def is_space_def nbsp_term_def)
  show ?thesis
    using h1 h2 h3 h4 h5 addSearchTerm_short_noop[OF h1] addSearchTerm_short_noop[OF h2]
      addSearchTerm_short_noop[OF h3] addSearchTerm_short_noop[OF h4]
      addSearchTerm_short_noop[OF h5] by simp
qed

section \<open>Properties of the API client\<close>

subsection \<open>The rate limiter\<close>

text \<open>
  A call that no other call overlaps is dispatched at least \<open>rateLimitDelay\<close> after the
  dispatch before it: either the interval has passed already, or the call waits for the
  rest of it.
\<close>

lemma rateLimitedRequest_spacing:
  "rateLimitedRequest url clk net api0 = (out, api1) \<Longrightarrow>
   \<exists>t. sent api1 = sent api0 @ [(t, url)] \<and> lastRequestTime api1 = t \<and>
       lastRequestTime api0 + rateLimitDelay \<le> t \<and> t_call clk \<le> t \<and> out = net"
  by (auto simp: rateLimitedRequest_def rateLimit_wait_def dispatch_def Let_def
      split: if_splits)

text \<open>
  Claim C1. The claim asks for at least 1000 ms between any two consecutive dispatches,
  also for calls made with no delay between them. The class does not do that. Two calls
  that find the interval not yet over both compute their wait from the same
  \<open>lastRequestTime\<close>, which is written only when a call resumes; their timers are due at
  the same time and both call \<open>fetch\<close> then. Here the page asks for the full record at
  5000 and, at 5200, for the characters and the recommendations: both of these are
  dispatched at 6000, 0 ms apart.
\<close>

theorem rateLimit_overlap_same_dispatch:
  "sent (client (run page_fanout fresh_loop)) =
     [(5000, ''https://api.jikan.moe/v4/anime/20/full''),
      (6000, ''https://api.jikan.moe/v4/anime/20/characters''),
      (6000, ''https://api.jikan.moe/v4/anime/20/recommendations'')]"
  by (simp add: run_def page_fanout_def fresh_loop_def constructor_def rateLimit_wait_def
      dispatch_def rateLimitDelay_def)

subsection \<open>The cache\<close>

lemma update_fresh: "k \<notin> fst ` set al \<Longrightarrow> AList.update k v al = al @ [(k, v)]"
  by (induction al) auto

lemma update_present_keys: "k \<in> fst ` set al \<Longrightarrow> map fst (AList.update k v al) = map fst al"
  by (simp add: AList.update_keys)

lemma length_update_present: "k \<in> fst ` set al \<Longrightarrow> length (AList.update k v al) = length al"
  using update_present_keys[of k al v] by (metis length_map)

lemma delete_first_distinct:
  "distinct (map fst ((k, v) # al)) \<Longrightarrow> AList.delete k ((k, v) # al) = al"
  by simp

lemma setCachedData_present:
  assumes "key \<in> fst ` set (cache api0)" and "length (cache api0) \<le> 100"
  shows "cache (setCachedData key d now api0) =
    AList.update key \<lparr>data = d, timestamp = now\<rparr> (cache api0)"
  using assms length_update_present[of key "cache api0" "\<lparr>data = d, timestamp = now\<rparr>"]
  by (simp add: setCachedData_def Let_def)

lemma setCachedData_fresh_room:
  assumes "key \<notin> fst ` set (cache api0)" and "length (cache api0) < 100"
  shows "cache (setCachedData key d now api0) =
    cache api0 @ [(key, \<lparr>data = d, timestamp = now\<rparr>)]"
  using assms by (simp add: setCachedData_def Let_def update_fresh)

lemma setCachedData_fresh_full:
  assumes "key \<notin> fst ` set (cache api0)" and "length (cache api0) = 100"
    and "distinct (map fst (cache api0))"
  shows "cache (setCachedData key d now api0) =
    tl (cache api0) @ [(key, \<lparr>data = d, timestamp = now\<rparr>)]"
proof -
  from assms(2) obtain k0 v0 rest where c: "cache api0 = (k0, v0) # rest"
    by (cases "cache api0") auto
  let ?e = "(key, \<lparr>data = d, timestamp = now\<rparr>)"
  have st: "AList.update key \<lparr>data = d, timestamp = now\<rparr> (cache api0) = (k0, v0) # rest @ [?e]"
    using assms(1) c update_fresh[of key "cache api0"] by simp
  have "distinct (map fst ((k0, v0) # rest @ [?e]))"
    using assms(1,3) c by auto
  then have "AList.delete k0 ((k0, v0) # rest @ [?e]) = rest @ [?e]"
    by (rule delete_first_distinct)
  then show ?thesis using assms(2) c st
    by (simp add: setCachedData_def Let_def)
qed

lemma setCachedData_cache_ok:
  assumes "cache_ok api0"
  shows "cache_ok (setCachedData key d now api0)"
proof (cases "key \<in> fst ` set (cache api0)")
  case True
  then show ?thesis
    using assms setCachedData_present[of key api0 d now]
      length_update_present[of key "cache api0"]
    by (simp add: cache_ok_def AList.distinct_update)
next
  case False
  show ?thesis
  proof (cases "length (cache api0) < 100")
    case True
    then show ?thesis using False assms setCachedData_fresh_room[of key api0 d now]
      by (auto simp: cache_ok_def)
  next
    case False
    then have full: "length (cache api0) = 100" using assms by (simp add: cache_ok_def)
    have d: "distinct (map fst (cache api0))" using assms by (simp add: cache_ok_def)
    have "cache (setCachedData key d now api0) = tl (cache api0) @ [(key, \<lparr>data = d, timestamp = now\<rparr>)]"
      using setCachedData_fresh_full[OF \<open>key \<notin> fst ` set (cache api0)\<close> full d] .
    moreover have "distinct (map fst (tl (cache api0)))"
      using d by (simp add: distinct_tl map_tl)
    moreover have "key \<notin> fst ` set (tl (cache api0))"
      using \<open>key \<notin> fst ` set (cache api0)\<close> by (cases "cache api0") auto
    ultimately show ?thesis using full by (simp add: cache_ok_def)
  qed
qed

lemma setCachedData_lookup:
  assumes "cache_ok api0"
  shows "map_of (cache (setCachedData key d now api0)) key = Some \<lparr>data = d, timestamp = now\<rparr>"
proof (cases "key \<in> fst ` set (cache api0)")
  case True
  then show ?thesis using assms setCachedData_present[of key api0 d now]
    by (simp add: cache_ok_def AList.update_conv')
next
  case False
  show ?thesis
  proof (cases "length (cache api0) < 100")
    case True
    then show ?thesis using False setCachedData_fresh_room[of key api0 d now]
      by (simp add: update_fresh[symmetric] AList.update_conv')
  next
    case n: False
    then have full: "length (cache api0) = 100" using assms by (simp add: cache_ok_def)
    have d: "distinct (map fst (cache api0))" using assms by (simp add: cache_ok_def)
    have k: "key \<notin> fst ` set (tl (cache api0))"
      using False by (cases "cache api0") auto
    show ?thesis
      using setCachedData_fresh_full[OF False full d, of d now] k
      by (simp add: update_fresh[symmetric] AList.update_conv')
  qed
qed

lemma getCachedData_hit:
  assumes "map_of (cache api0) k = Some c" and "t - timestamp c < cacheTimeout"
  shows "getCachedData k t api0 = (data c, api0)"
  using assms by (simp add: getCachedData_def)

lemma getCachedData_cache_ok:
  assumes "cache_ok api0"
  shows "cache_ok (snd (getCachedData k t api0))"
proof -
  have "length (AList.delete k (cache api0)) \<le> 100"
    using assms AList.length_delete_le[of k "cache api0"] by (simp add: cache_ok_def)
  then show ?thesis using assms
    by (auto simp: getCachedData_def cache_ok_def AList.distinct_delete split: option.splits)
qed

lemma dispatch_cache [simp]: "cache (dispatch t url a) = cache a"
  by (simp add: dispatch_def)

lemma dispatch_sent [simp]: "sent (dispatch t url a) = sent a @ [(t, url)]"
  by (simp add: dispatch_def)

lemma rateLimitedRequest_cache: "cache (snd (rateLimitedRequest url clk net a)) = cache a"
  by (simp add: rateLimitedRequest_def split: option.splits)

lemma rateLimitedRequest_fst: "fst (rateLimitedRequest url clk net a) = net"
  by (simp add: rateLimitedRequest_def split: option.splits)

lemma rateLimitedRequest_sent:
  "\<exists>t. sent (snd (rateLimitedRequest url clk net a)) = sent a @ [(t, url)]"
  by (simp add: rateLimitedRequest_def split: option.splits)

lemma cache_ok_constructor: "cache_ok constructor"
  by (simp add: cache_ok_def constructor_def)

lemma request_cache_ok:
  assumes "cache_ok a"
  shows "cache_ok (snd (request endpoint useCache clk net a))"
proof -
  obtain cd a1 where
    g: "(if useCache then getCachedData endpoint (t_call clk) a else (JNull, a)) = (cd, a1)"
    by (cases "if useCache then getCachedData endpoint (t_call clk) a else (JNull, a)")
  have ok1: "cache_ok a1"
    using g assms getCachedData_cache_ok[OF assms, of endpoint "t_call clk"]
    by (auto split: if_splits)
  obtain out a2 where rl: "rateLimitedRequest (baseURL @ endpoint) clk net a1 = (out, a2)"
    by (cases "rateLimitedRequest (baseURL @ endpoint) clk net a1")
  have "cache a2 = cache a1"
    using rateLimitedRequest_cache[of "baseURL @ endpoint" clk net a1] rl by simp
  then have ok2: "cache_ok a2" using ok1 by (simp add: cache_ok_def)
  have ok3: "\<And>d. cache_ok (setCachedData endpoint d (t_done clk) a2)"
    using setCachedData_cache_ok[OF ok2] .
  show ?thesis using g rl ok1 ok2 ok3
    by (auto simp: request_def request_try_def Let_def
        split: fetch_outcome.splits sum.splits)
qed

text \<open>
  Claim C7. With the keys distinct and at most 100 entries before the call, the cache has
  at most 100 entries (and distinct keys) after \<open>setCachedData\<close>. Writing a key that is
  present replaces its value and keeps every key in its place; a new key goes last; and
  when the new key is the 101st, the entry that goes is the first of the list, the one
  inserted longest ago. A lookup that hits returns the client as it was, so reading an
  entry does not move it: the order is that of insertion, not of use. Both hypotheses
  hold of the new client and are kept by \<open>request\<close> (\<open>cache_ok_constructor\<close>,
  \<open>request_cache_ok\<close>).
\<close>

theorem setCachedData_capacity:
  assumes "distinct (map fst (cache api0))" and "length (cache api0) \<le> 100"
  shows "length (cache (setCachedData key d now api0)) \<le> 100 \<and>
    distinct (map fst (cache (setCachedData key d now api0))) \<and>
    (key \<in> fst ` set (cache api0) \<longrightarrow>
       cache (setCachedData key d now api0) =
         AList.update key \<lparr>data = d, timestamp = now\<rparr> (cache api0) \<and>
       map fst (cache (setCachedData key d now api0)) = map fst (cache api0)) \<and>
    (key \<notin> fst ` set (cache api0) \<and> length (cache api0) < 100 \<longrightarrow>
       cache (setCachedData key d now api0) =
         cache api0 @ [(key, \<lparr>data = d, timestamp = now\<rparr>)]) \<and>
    (key \<notin> fst ` set (cache api0) \<and> length (cache api0) = 100 \<longrightarrow>
       cache (setCachedData key d now api0) =
         tl (cache api0) @ [(key, \<lparr>data = d, timestamp = now\<rparr>)]) \<and>
    (\<forall>k c t. map_of (cache api0) k = Some c \<and> t - timestamp c < cacheTimeout \<longrightarrow>
       getCachedData k t api0 = (data c, api0))"
proof -
  have ok0: "cache_ok api0" using assms by (simp add: cache_ok_def)
  have a: "length (cache (setCachedData key d now api0)) \<le> 100"
    and b: "distinct (map fst (cache (setCachedData key d now api0)))"
    using setCachedData_cache_ok[OF ok0, of key d now] by (simp_all add: cache_ok_def)
  have c: "key \<in> fst ` set (cache api0) \<longrightarrow>
       cache (setCachedData key d now api0) =
         AList.update key \<lparr>data = d, timestamp = now\<rparr> (cache api0) \<and>
       map fst (cache (setCachedData key d now api0)) = map fst (cache api0)"
    using setCachedData_present[of key api0 d now] assms(2) update_present_keys[of key "cache api0"]
    by simp
  have d: "key \<notin> fst ` set (cache api0) \<and> length (cache api0) < 100 \<longrightarrow>
       cache (setCachedData key d now api0) =
         cache api0 @ [(key, \<lparr>data = d, timestamp = now\<rparr>)]"
    using setCachedData_fresh_room[of key api0 d now] by simp
  have e: "key \<notin> fst ` set (cache api0) \<and> length (cache api0) = 100 \<longrightarrow>
       cache (setCachedData key d now api0) =
         tl (cache api0) @ [(key, \<lparr>data = d, timestamp = now\<rparr>)]"
    using setCachedData_fresh_full[of key api0 d now] assms(1) by simp
  have f: "\<forall>k c t. map_of (cache api0) k = Some c \<and> t - timestamp c < cacheTimeout \<longrightarrow>
       getCachedData k t api0 = (data c, api0)"
    using getCachedData_hit by blast
  show ?thesis using a b c d e f by blast
qed

lemma full_api_distinct: "distinct (map fst (cache full_api))"
  unfolding full_api_def by code_simp

lemma full_api_length: "length (cache full_api) = 100"
  by (simp add: full_api_def)

lemma full_api_fresh: "''/genres/anime'' \<notin> fst ` set (cache full_api)"
  by (auto simp: full_api_def)

theorem setCachedData_capacity_witness:
  "distinct (map fst (cache full_api)) \<and> length (cache full_api) \<le> 100 \<and>
   ''/genres/anime'' \<notin> fst ` set (cache full_api) \<and> length (cache full_api) = 100 \<and>
   cache (setCachedData ''/genres/anime'' (JObj []) 7000 full_api) =
     tl (cache full_api) @ [(''/genres/anime'', \<lparr>data = JObj [], timestamp = 7000\<rparr>)] \<and>
   length (cache (setCachedData ''/genres/anime'' (JObj []) 7000 full_api)) \<le> 100"
proof -
  have h1: "distinct (map fst (cache full_api))" by (rule full_api_distinct)
  have h2: "length (cache full_api) \<le> 100" by (simp add: full_api_length)
  show ?thesis
    using h1 h2 full_api_fresh full_api_length
      setCachedData_capacity[OF h1 h2, of "''/genres/anime''" "JObj []" 7000]
    by blast
qed

subsection \<open>request\<close>

lemma request_uncached:
  "request endpoint False clk net a =
     ((case net of
         Rejected e \<Rightarrow> Failure (message e) (Some endpoint)
       | Resolved r \<Rightarrow>
           if \<not> ok r
           then Failure (''HTTP '' @ show_nat (resp_status r) @ '': '' @ resp_statusText r)
                  (Some endpoint)
           else (case resp_json r of
                   Inl e \<Rightarrow> Failure (message e) (Some endpoint)
                 | Inr d \<Rightarrow> Success d)),
      snd (rateLimitedRequest (baseURL @ endpoint) clk net a))"
  by (cases "rateLimitedRequest (baseURL @ endpoint) clk net a")
     (use rateLimitedRequest_fst[of "baseURL @ endpoint" clk net a] in
      \<open>auto simp: request_def request_try_def Let_def
         split: fetch_outcome.splits sum.splits prod.splits\<close>)

text \<open>
  Claim C8. \<open>searchAnime\<close> and \<open>getRandomAnime\<close> leave the cache as it was; what they
  return does not depend on what the cache holds; \<open>getRandomAnime\<close> always calls the
  network, and \<open>searchAnime\<close> does unless the query is blank, in which case it returns
  from its guard.
\<close>

theorem search_random_bypass_cache:
  "cache (snd (searchAnime query page limit clk net a)) = cache a \<and>
   cache (snd (getRandomAnime clk net a)) = cache a \<and>
   fst (searchAnime query page limit clk net (a\<lparr>cache := c\<rparr>)) =
     fst (searchAnime query page limit clk net a) \<and>
   fst (getRandomAnime clk net (a\<lparr>cache := c\<rparr>)) = fst (getRandomAnime clk net a) \<and>
   length (sent (snd (getRandomAnime clk net a))) = Suc (length (sent a)) \<and>
   length (sent (snd (searchAnime query page limit clk net a))) =
     (if trim query = [] then length (sent a) else Suc (length (sent a)))"
proof -
  have s: "\<And>e. length (sent (snd (rateLimitedRequest e clk net a))) = Suc (length (sent a))"
    using rateLimitedRequest_sent[of _ clk net a] by (metis length_append_singleton)
  have q: "trim query \<noteq> [] \<Longrightarrow> query \<noteq> []" by (auto simp: trim_def)
  show ?thesis
    using q
    by (auto simp: searchAnime_def getRandomAnime_def request_uncached Let_def
        rateLimitedRequest_cache s)
qed

lemma show_404: "show_nat 404 = ''404''"
  by code_simp

lemma request_result:
  "fst (request endpoint useCache clk net a) =
     (if useCache \<and> truthy (fst (getCachedData endpoint (t_call clk) a))
      then Success (fst (getCachedData endpoint (t_call clk) a))
      else (case net of
         Rejected e \<Rightarrow> Failure (message e) (Some endpoint)
       | Resolved r \<Rightarrow>
           if \<not> ok r
           then Failure (''HTTP '' @ show_nat (resp_status r) @ '': '' @ resp_statusText r)
                  (Some endpoint)
           else (case resp_json r of
                   Inl e \<Rightarrow> Failure (message e) (Some endpoint)
                 | Inr d \<Rightarrow> Success d)))"
proof (cases useCache)
  case False
  then show ?thesis by (simp add: request_uncached)
next
  case True
  obtain cd a1 where g: "getCachedData endpoint (t_call clk) a = (cd, a1)"
    by (cases "getCachedData endpoint (t_call clk) a")
  obtain out a2 where r: "rateLimitedRequest (baseURL @ endpoint) clk net a1 = (out, a2)"
    by (cases "rateLimitedRequest (baseURL @ endpoint) clk net a1")
  have o: "out = net" using rateLimitedRequest_fst[of "baseURL @ endpoint" clk net a1] r by simp
  show ?thesis using True g r o
    by (auto simp: request_def request_try_def Let_def
        split: fetch_outcome.splits sum.splits)
qed

text \<open>
  Claim C3, as stated, fails: a response with status 200 whose body is not JSON makes
  \<open>response.json()\<close> reject, and \<open>request\<close> resolves to a failure.
\<close>

theorem request_2xx_unparsed_counterexample:
  "fst (request ''/genres/anime'' True clkA html_response constructor) =
     Failure ''Unexpected token < in JSON at position 0'' (Some ''/genres/anime'')"
  by (simp add: request_def request_try_def getCachedData_def rateLimitedRequest_def
      rateLimit_wait_def dispatch_def constructor_def clkA_def html_response_def
      ok_def baseURL_def rateLimitDelay_def Let_def)

text \<open>
  Claim C3, amended. For every endpoint and \<open>useCache\<close> flag, \<open>request\<close> never throws and
  resolves to a tagged result: the cached payload on a cache hit; otherwise
  \<open>{success: true, data}\<close> for a 2xx response whose body parses as JSON, and
  \<open>{success: false}\<close> with the error message and the endpoint for every failure, which is a
  transport error, a status outside 2xx (message \<open>HTTP status: statusText\<close>) or a body that
  does not parse.
\<close>

theorem request_tagged_result:
  "fst (request endpoint useCache clk net a) =
     (if useCache \<and> truthy (fst (getCachedData endpoint (t_call clk) a))
      then Success (fst (getCachedData endpoint (t_call clk) a))
      else (case net of
         Rejected e \<Rightarrow> Failure (message e) (Some endpoint)
       | Resolved r \<Rightarrow>
           if \<not> ok r
           then Failure (''HTTP '' @ show_nat (resp_status r) @ '': '' @ resp_statusText r)
                  (Some endpoint)
           else (case resp_json r of
                   Inl e \<Rightarrow> Failure (message e) (Some endpoint)
                 | Inr d \<Rightarrow> Success d))) \<and>
   ((\<exists>d. fst (request endpoint useCache clk net a) = Success d) \<or>
    (\<exists>m. fst (request endpoint useCache clk net a) = Failure m (Some endpoint))) \<and>
   fst (request ''/anime/0'' True clkA not_found_response constructor) =
     Failure ''HTTP 404: Not Found'' (Some ''/anime/0'')"
proof -
  have tag: "(\<exists>d. fst (request endpoint useCache clk net a) = Success d) \<or>
    (\<exists>m. fst (request endpoint useCache clk net a) = Failure m (Some endpoint))"
    unfolding request_result by (auto split: fetch_outcome.splits sum.splits)
  have ex: "fst (request ''/anime/0'' True clkA not_found_response constructor) =
     Failure ''HTTP 404: Not Found'' (Some ''/anime/0'')"
    unfolding request_result
    by (simp add: getCachedData_def constructor_def not_found_response_def ok_def show_404)
  show ?thesis using request_result[of endpoint useCache clk net a] tag ex by simp
qed

lemma request_hit:
  assumes "map_of (cache a) endpoint = Some c" and "truthy (data c)"
    and "t_call clk - timestamp c < cacheTimeout"
  shows "request endpoint True clk net a = (Success (data c), a)"
  using assms getCachedData_hit[OF assms(1,3)]
  by (simp add: request_def request_try_def Let_def)

lemma request_stores:
  assumes "cache_ok a"
    and "\<not> truthy (fst (getCachedData endpoint (t_call clk) a))"
    and "ok r" and "resp_json r = Inr d" and "truthy d"
  shows "fst (request endpoint True clk (Resolved r) a) = Success d \<and>
    map_of (cache (snd (request endpoint True clk (Resolved r) a))) endpoint =
      Some \<lparr>data = d, timestamp = t_done clk\<rparr>"
proof -
  obtain cd a1 where g: "getCachedData endpoint (t_call clk) a = (cd, a1)"
    by (cases "getCachedData endpoint (t_call clk) a")
  obtain out a2 where rl: "rateLimitedRequest (baseURL @ endpoint) clk (Resolved r) a1 = (out, a2)"
    by (cases "rateLimitedRequest (baseURL @ endpoint) clk (Resolved r) a1")
  have o: "out = Resolved r"
    using rateLimitedRequest_fst[of "baseURL @ endpoint" clk "Resolved r" a1] rl by simp
  have ok1: "cache_ok a1" using getCachedData_cache_ok[OF assms(1), of endpoint "t_call clk"] g by simp
  have "cache a2 = cache a1"
    using rateLimitedRequest_cache[of "baseURL @ endpoint" clk "Resolved r" a1] rl by simp
  then have ok2: "cache_ok a2" using ok1 by (simp add: cache_ok_def)
  have req: "request endpoint True clk (Resolved r) a =
      (Success d, setCachedData endpoint d (t_done clk) a2)"
    using assms(2-5) g rl o by (simp add: request_def request_try_def Let_def)
  show ?thesis using req setCachedData_lookup[OF ok2, of endpoint d "t_done clk"] by simp
qed

lemma request_expired:
  assumes "map_of (cache a) endpoint = Some c" and "cacheTimeout \<le> t_call clk - timestamp c"
  shows "fst (getCachedData endpoint (t_call clk) a) = JNull \<and>
    endpoint \<notin> fst ` set (cache (snd (getCachedData endpoint (t_call clk) a))) \<and>
    (\<exists>t. sent (snd (request endpoint True clk net a)) = sent a @ [(t, baseURL @ endpoint)])"
proof -
  let ?a1 = "a\<lparr>cache := AList.delete endpoint (cache a)\<rparr>"
  have g: "getCachedData endpoint (t_call clk) a = (JNull, ?a1)"
    using assms by (simp add: getCachedData_def)
  obtain out a2 where rl: "rateLimitedRequest (baseURL @ endpoint) clk net ?a1 = (out, a2)"
    by (cases "rateLimitedRequest (baseURL @ endpoint) clk net ?a1")
  obtain t where t: "sent a2 = sent a @ [(t, baseURL @ endpoint)]"
    using rateLimitedRequest_sent[of "baseURL @ endpoint" clk net ?a1] rl by auto
  have "sent (snd (request endpoint True clk net a)) = sent a2"
    using g rl
    by (auto simp: request_def request_try_def Let_def setCachedData_def
        split: fetch_outcome.splits sum.splits list.splits)
  then show ?thesis using g t by (simp add: AList.delete_notin_dom)
qed

text \<open>
  Claim C2, as stated, fails: \<open>request\<close> stores a payload only if it is truthy. After a
  successful fetch whose payload is \<open>null\<close>, the same request one minute later goes to the
  network again.
\<close>

theorem request_caches_only_truthy_counterexample:
  "fst (request ''/genres/anime'' True clkA null_response constructor) = Success JNull \<and>
   sent (snd (request ''/genres/anime'' True clkB null_response
           (snd (request ''/genres/anime'' True clkA null_response constructor)))) =
     [(5000, ''https://api.jikan.moe/v4/genres/anime''),
      (65000, ''https://api.jikan.moe/v4/genres/anime'')]"
  by (simp add: request_def request_try_def getCachedData_def rateLimitedRequest_def
      rateLimit_wait_def dispatch_def constructor_def clkA_def clkB_def null_response_def
      ok_def baseURL_def rateLimitDelay_def Let_def)

text \<open>
  Claim C2, amended. Let an endpoint be requested with caching enabled, let the request go
  to the network and succeed with a truthy payload, which is then stored at \<open>t_done\<close>, and
  take any later client \<open>a2\<close> whose cache still maps the endpoint to that entry. A request
  for the endpoint on \<open>a2\<close> less than 5 minutes after \<open>t_done\<close> returns that payload and
  leaves the client as it is, the log of network calls included. A request 5 minutes or
  more after \<open>t_done\<close> finds the lookup returning \<open>null\<close> with the entry removed from the
  cache, and makes one network call.
\<close>

theorem request_cache_window:
  assumes "distinct (map fst (cache a))" and "length (cache a) \<le> 100"
    and "\<not> truthy (fst (getCachedData endpoint (t_call clk1) a))"
    and "ok r" and "resp_json r = Inr d" and "truthy d"
    and "request endpoint True clk1 (Resolved r) a = (res1, a1)"
    and "map_of (cache a2) endpoint = map_of (cache a1) endpoint"
  shows "res1 = Success d \<and>
    map_of (cache a1) endpoint = Some \<lparr>data = d, timestamp = t_done clk1\<rparr> \<and>
    (t_call clk2 - t_done clk1 < cacheTimeout \<longrightarrow>
       request endpoint True clk2 net2 a2 = (Success d, a2)) \<and>
    (cacheTimeout \<le> t_call clk2 - t_done clk1 \<longrightarrow>
       fst (getCachedData endpoint (t_call clk2) a2) = JNull \<and>
       endpoint \<notin> fst ` set (cache (snd (getCachedData endpoint (t_call clk2) a2))) \<and>
       (\<exists>t. sent (snd (request endpoint True clk2 net2 a2)) =
              sent a2 @ [(t, baseURL @ endpoint)]))"
proof -
  have ok0: "cache_ok a" using assms(1,2) by (simp add: cache_ok_def)
  let ?c = "\<lparr>data = d, timestamp = t_done clk1\<rparr>"
  have st: "res1 = Success d" "map_of (cache a1) endpoint = Some ?c"
    using request_stores[OF ok0 assms(3-6)] assms(7) by simp_all
  have later: "map_of (cache a2) endpoint = Some ?c"
    using st(2) assms(8) by simp
  have hit: "t_call clk2 - t_done clk1 < cacheTimeout \<longrightarrow>
       request endpoint True clk2 net2 a2 = (Success d, a2)"
    using request_hit[OF later, of clk2 net2] assms(6) by simp
  have exp: "cacheTimeout \<le> t_call clk2 - t_done clk1 \<longrightarrow>
       fst (getCachedData endpoint (t_call clk2) a2) = JNull \<and>
       endpoint \<notin> fst ` set (cache (snd (getCachedData endpoint (t_call clk2) a2))) \<and>
       (\<exists>t. sent (snd (request endpoint True clk2 net2 a2)) =
              sent a2 @ [(t, baseURL @ endpoint)])"
  proof
    assume "cacheTimeout \<le> t_call clk2 - t_done clk1"
    then have old: "cacheTimeout \<le> t_call clk2 - timestamp ?c" by simp
    show "fst (getCachedData endpoint (t_call clk2) a2) = JNull \<and>
       endpoint \<notin> fst ` set (cache (snd (getCachedData endpoint (t_call clk2) a2))) \<and>
       (\<exists>t. sent (snd (request endpoint True clk2 net2 a2)) =
              sent a2 @ [(t, baseURL @ endpoint)])"
      by (rule request_expired[OF later old])
  qed
  show ?thesis using st hit exp by blast
qed

theorem request_cache_window_witness:
  "distinct (map fst (cache constructor)) \<and> length (cache constructor) \<le> 100 \<and>
   \<not> truthy (fst (getCachedData ''/genres/anime'' (t_call clkA) constructor)) \<and>
   ok genres_response \<and> resp_json genres_response = Inr genres_payload \<and>
   truthy genres_payload \<and>
   request ''/genres/anime'' True clkA (Resolved genres_response) constructor =
     (Success genres_payload, cached_api) \<and>
   t_call clkB - t_done clkA < cacheTimeout \<and>
   request ''/genres/anime'' True clkB null_response cached_api =
     (Success genres_payload, cached_api) \<and>
   cacheTimeout \<le> t_call clkC - t_done clkA \<and>
   (\<exists>t. sent (snd (request ''/genres/anime'' True clkC null_response cached_api)) =
      sent cached_api @ [(t, baseURL @ ''/genres/anime'')])"
proof -
  have h1: "distinct (map fst (cache constructor))" by (simp add: constructor_def)
  have h2: "length (cache constructor) \<le> 100" by (simp add: constructor_def)
  have h3: "\<not> truthy (fst (getCachedData ''/genres/anime'' (t_call clkA) constructor))"
    by (simp add: getCachedData_def constructor_def)
  have h4: "ok genres_response" by (simp add: ok_def genres_response_def)
  have h5: "resp_json genres_response = Inr genres_payload" by (simp add: genres_response_def)
  have h6: "truthy genres_payload" by (simp add: genres_payload_def)
  have h7: "request ''/genres/anime'' True clkA (Resolved genres_response) constructor =
     (Success genres_payload, cached_api)"
    by (simp add: request_def request_try_def getCachedData_def rateLimitedRequest_def
        rateLimit_wait_def dispatch_def setCachedData_def constructor_def clkA_def
        genres_response_def genres_payload_def cached_api_def ok_def baseURL_def
        rateLimitDelay_def Let_def)
  have h8: "map_of (cache cached_api) ''/genres/anime'' = map_of (cache cached_api) ''/genres/anime''"
    by simp
  have b: "t_call clkB - t_done clkA < cacheTimeout"
    by (simp add: clkA_def clkB_def cacheTimeout_def)
  have c: "cacheTimeout \<le> t_call clkC - t_done clkA"
    by (simp add: clkA_def clkC_def cacheTimeout_def)
  show ?thesis
    using h1 h2 h3 h4 h5 h6 h7 b c
      request_cache_window[OF h1 h2 h3 h4 h5 h6 h7 h8, of clkB null_response]
      request_cache_window[OF h1 h2 h3 h4 h5 h6 h7 h8, of clkC null_response]
    by blast
qed

section \<open>Properties of the detail page\<close>

lemma loadRecommendations_try_none:
  "no_recommendations recs \<Longrightarrow> loadRecommendations_try recs = Inr None \<or>
     (\<exists>e. loadRecommendations_try recs = Inl e)"
  by (cases recs rule: no_recommendations.cases) (simp_all add: loadRecommendations_try_def)

lemma loadRecommendations_fallback:
  "no_recommendations recs \<Longrightarrow>
   loadRecommendations pg recs byGenre (Some container) =
     Some (loadSimilarAnimeByGenre pg byGenre container)"
  using loadRecommendations_try_none[of recs]
  by (auto simp: loadRecommendations_def)

lemma loadRecommendations_rendered:
  "recItems \<noteq> [] \<Longrightarrow>
   loadRecommendations pg (Succeeded (Body (Some recItems))) byGenre (Some container) =
     Some (map Card (List.map_filter entry (take 6 recItems)))"
  by (simp add: loadRecommendations_def loadRecommendations_try_def)

lemma showFallback_content:
  "showFallbackRecommendations container =
     map Card fallbackAnime
     @ [Message ''Showing popular anime (recommendations temporarily unavailable)'']"
  by (simp add: showFallbackRecommendations_def fallbackAnime_def)

lemma loadSimilar_fallback:
  "no_similar pg byGenre \<Longrightarrow>
   loadSimilarAnimeByGenre pg byGenre container = showFallbackRecommendations container"
  by (auto simp: loadSimilarAnimeByGenre_def loadSimilarAnimeByGenre_try_def
      split: option.splits list.splits page_result.splits body.splits sum.splits)

lemma loadSimilar_rendered:
  assumes "animeData pg = Some anime" and "detail_genres anime = Some (g # gs)"
    and "byGenre (genre_mal_id g) = Succeeded (Body (Some items))" and "items \<noteq> []"
  shows "loadSimilarAnimeByGenre pg byGenre container =
    map Card (take 6 items) @ [Message (''Similar '' @ genre_name g @ '' anime'')]"
proof -
  have "take 6 items \<noteq> []" using assms(4) by (cases items) simp_all
  then show ?thesis using assms
    by (simp add: loadSimilarAnimeByGenre_def loadSimilarAnimeByGenre_try_def strict_neq_def
        Let_def)
qed

lemma loadSimilar_nonempty: "loadSimilarAnimeByGenre pg byGenre container \<noteq> []"
  by (auto simp: loadSimilarAnimeByGenre_def loadSimilarAnimeByGenre_try_def
      showFallbackRecommendations_def Let_def
      split: option.splits list.splits page_result.splits body.splits sum.splits if_splits)

lemma map_filter_empty: "List.map_filter f xs = [] \<longleftrightarrow> (\<forall>x \<in> set xs. f x = None)"
  by (induction xs) (auto simp: List.map_filter_simps split: option.splits)

lemma loadRecommendations_blank:
  "(\<exists>content. loadRecommendations pg recs byGenre (Some container) = Some content \<and>
      (content = [] \<longleftrightarrow>
         (\<exists>recItems. recs = Succeeded (Body (Some recItems)) \<and> recItems \<noteq> [] \<and>
            (\<forall>r \<in> set (take 6 recItems). entry r = None))))"
proof (cases "no_recommendations recs")
  case True
  then have "\<not> (\<exists>recItems. recs = Succeeded (Body (Some recItems)) \<and> recItems \<noteq> [])"
    by auto
  then show ?thesis
    using loadRecommendations_fallback[OF True, of pg byGenre container]
      loadSimilar_nonempty[of pg byGenre container] by auto
next
  case False
  then obtain recItems where r: "recs = Succeeded (Body (Some recItems))" "recItems \<noteq> []"
    by (cases recs rule: no_recommendations.cases) auto
  show ?thesis
    using loadRecommendations_rendered[OF r(2), of pg byGenre container] r
    by (auto simp: map_filter_empty)
qed

text \<open>
  Claim C9. On the detail page, \<open>loadRecommendations\<close> does nothing when the document has
  no recommendations container. With the container present: whenever the
  recommendations endpoint fails or returns no entries, \<open>loadRecommendations\<close> does what
  \<open>loadSimilarAnimeByGenre\<close> does on that container. \<open>loadSimilarAnimeByGenre\<close> asks the
  genre search for the first genre of the loaded record and, when the search returns
  items, renders the first six as cards followed by the message naming the genre; whenever
  the search gives nothing to render (no loaded record, no genre, a failed or empty
  search) it renders the static list of six popular anime and their message. So in every
  case of a failed or empty recommendations result the section ends up with content.
  When the endpoint does return entries, the first six that carry an \<open>entry\<close> are rendered
  and no fallback runs; the section is empty exactly when the endpoint returned entries of
  which none of the first six carries an \<open>entry\<close>.
\<close>

theorem recommendations_fallback_chain:
  "loadRecommendations pg recs byGenre None = None \<and>
   (no_recommendations recs \<longrightarrow>
      loadRecommendations pg recs byGenre (Some container) =
        Some (loadSimilarAnimeByGenre pg byGenre container)) \<and>
   (animeData pg = Some anime \<and> detail_genres anime = Some (g # gs) \<and>
    byGenre (genre_mal_id g) = Succeeded (Body (Some items)) \<and> items \<noteq> [] \<longrightarrow>
      loadSimilarAnimeByGenre pg byGenre container =
        map Card (take 6 items) @ [Message (''Similar '' @ genre_name g @ '' anime'')]) \<and>
   (no_similar pg byGenre \<longrightarrow>
      loadSimilarAnimeByGenre pg byGenre container = showFallbackRecommendations container) \<and>
   (no_recommendations recs \<and> no_similar pg byGenre \<longrightarrow>
      loadRecommendations pg recs byGenre (Some container) =
        Some (map Card fallbackAnime
              @ [Message ''Showing popular anime (recommendations temporarily unavailable)''])) \<and>
   (no_recommendations recs \<longrightarrow>
      (\<exists>content. loadRecommendations pg recs byGenre (Some container) = Some content \<and>
         content \<noteq> [])) \<and>
   (recs = Succeeded (Body (Some recItems)) \<and> recItems \<noteq> [] \<longrightarrow>
      loadRecommendations pg recs byGenre (Some container) =
        Some (map Card (List.map_filter entry (take 6 recItems)))) \<and>
   (\<exists>content. loadRecommendations pg recs byGenre (Some container) = Some content \<and>
      (content = [] \<longleftrightarrow>
         (\<exists>recItems. recs = Succeeded (Body (Some recItems)) \<and> recItems \<noteq> [] \<and>
            (\<forall>r \<in> set (take 6 recItems). entry r = None))))"
proof -
  have a: "no_recommendations recs \<longrightarrow>
      loadRecommendations pg recs byGenre (Some container) =
        Some (loadSimilarAnimeByGenre pg byGenre container)"
    using loadRecommendations_fallback by blast
  have b: "animeData pg = Some anime \<and> detail_genres anime = Some (g # gs) \<and>
    byGenre (genre_mal_id g) = Succeeded (Body (Some items)) \<and> items \<noteq> [] \<longrightarrow>
      loadSimilarAnimeByGenre pg byGenre container =
        map Card (take 6 items) @ [Message (''Similar '' @ genre_name g @ '' anime'')]"
    using loadSimilar_rendered by blast
  have c: "no_similar pg byGenre \<longrightarrow>
      loadSimilarAnimeByGenre pg byGenre container = showFallbackRecommendations container"
    using loadSimilar_fallback by blast
  have d: "no_recommendations recs \<and> no_similar pg byGenre \<longrightarrow>
      loadRecommendations pg recs byGenre (Some container) =
        Some (map Card fallbackAnime
              @ [Message ''Showing popular anime (recommendations temporarily unavailable)''])"
    using a c showFallback_content[of container] by simp
  have e: "no_recommendations recs \<longrightarrow>
      (\<exists>content. loadRecommendations pg recs byGenre (Some container) = Some content \<and>
         content \<noteq> [])"
    using a loadSimilar_nonempty[of pg byGenre container] by simp
  have f: "recs = Succeeded (Body (Some recItems)) \<and> recItems \<noteq> [] \<longrightarrow>
      loadRecommendations pg recs byGenre (Some container) =
        Some (map Card (List.map_filter entry (take 6 recItems)))"
    using loadRecommendations_rendered by blast
  have n: "loadRecommendations pg recs byGenre None = None"
    by (simp add: loadRecommendations_def)
  show ?thesis
    using n a b c d e f loadRecommendations_blank[of pg recs byGenre container]
    by (intro conjI) assumption+
qed

text \<open>
  Three runs on the page of Naruto, whose first genre is Action: both upstream calls fail
  and the static list is shown; the recommendations fail and the genre search answers,
  and its two items are shown under the message naming the genre; the recommendations
  answer with two items, one of them without an \<open>entry\<close>, and the other is shown.
\<close>

theorem recommendations_fallback_chain_witness:
  "no_recommendations failing_recs \<and> no_similar naruto_page failing_genre \<and>
   loadRecommendations naruto_page failing_recs failing_genre (Some []) =
     Some [Card \<lparr>card_mal_id = 16498, card_title = ''Attack on Titan''\<rparr>,
      Card \<lparr>card_mal_id = 11757, card_title = ''Sword Art Online''\<rparr>,
      Card \<lparr>card_mal_id = 20, card_title = ''Naruto''\<rparr>,
      Card \<lparr>card_mal_id = 1535, card_title = ''Death Note''\<rparr>,
      Card \<lparr>card_mal_id = 5114, card_title = ''Fullmetal Alchemist: Brotherhood''\<rparr>,
      Card \<lparr>card_mal_id = 31964, card_title = ''Boku no Hero Academia''\<rparr>,
      Message ''Showing popular anime (recommendations temporarily unavailable)''] \<and>
   animeData naruto_page = Some naruto_detail \<and>
   detail_genres naruto_detail = Some [action] \<and>
   action_search (genre_mal_id action) = Succeeded (Body (Some [bleach_card, one_piece_card])) \<and>
   loadRecommendations naruto_page failing_recs action_search (Some []) =
     Some [Card bleach_card, Card one_piece_card, Message ''Similar Action anime''] \<and>
   loadRecommendations naruto_page
       (Succeeded (Body (Some [\<lparr>entry = None\<rparr>, \<lparr>entry = Some bleach_card\<rparr>])))
       failing_genre (Some []) =
     Some [Card bleach_card]"
proof -
  have h1: "no_recommendations failing_recs" by (simp add: failing_recs_def)
  have h2: "no_similar naruto_page failing_genre"
    by (simp add: naruto_page_def naruto_detail_def action_def failing_genre_def)
  have h3: "animeData naruto_page = Some naruto_detail" by (simp add: naruto_page_def)
  have h4: "detail_genres naruto_detail = Some [action]" by (simp add: naruto_detail_def)
  have h5: "action_search (genre_mal_id action) =
      Succeeded (Body (Some [bleach_card, one_piece_card]))"
    by (simp add: action_search_def action_def)
  have r1: "loadRecommendations naruto_page failing_recs failing_genre (Some []) =
      Some (map Card fallbackAnime
            @ [Message ''Showing popular anime (recommendations temporarily unavailable)''])"
    using h1 h2
      recommendations_fallback_chain[where recs = failing_recs and pg = naruto_page
        and byGenre = failing_genre and container = "[]"]
    by blast
  have r2: "loadRecommendations naruto_page failing_recs action_search (Some []) =
      Some (map Card (take 6 [bleach_card, one_piece_card])
            @ [Message (''Similar '' @ genre_name action @ '' anime'')])"
    using h1 h3 h4 h5
      recommendations_fallback_chain[where recs = failing_recs and pg = naruto_page
        and byGenre = action_search and container = "[]" and anime = naruto_detail
        and g = action and gs = "[]" and items = "[bleach_card, one_piece_card]"]
    by simp
  have r3: "loadRecommendations naruto_page
       (Succeeded (Body (Some [\<lparr>entry = None\<rparr>, \<lparr>entry = Some bleach_card\<rparr>])))
       failing_genre (Some []) =
     Some (map Card (List.map_filter entry
       (take 6 [\<lparr>entry = None\<rparr>, \<lparr>entry = Some bleach_card\<rparr>])))"
    using recommendations_fallback_chain[where
        recs = "Succeeded (Body (Some [\<lparr>entry = None\<rparr>, \<lparr>entry = Some bleach_card\<rparr>]))"
        and pg = naruto_page and byGenre = failing_genre and container = "[]"
        and recItems = "[\<lparr>entry = None\<rparr>, \<lparr>entry = Some bleach_card\<rparr>]"]
    by simp
  show ?thesis
    using h1 h2 h3 h4 h5 r1 r2 r3
    by (simp add: fallbackAnime_def action_def List.map_filter_simps)
qed

end
